theory Spec2Isabelle
  imports Main "HOL-Library.Multiset" "HOL-Library.Sublist"
begin

section \<open>Shared Go and Kubernetes vocabulary\<close>

text \<open>
  Go errors are modelled by their message; \<open>NotFoundErr\<close> marks the errors for which
  apierrors.IsNotFound holds (the only class the controllers tell apart).
\<close>

datatype error = NotFoundErr string | OtherErr string

fun err_msg :: "error \<Rightarrow> string" where
  "err_msg (NotFoundErr m) = m"
| "err_msg (OtherErr m) = m"

text \<open>errors.Wrap: nil stays nil, any other error gets the message in front.\<close>

fun errors_Wrap :: "error option \<Rightarrow> string \<Rightarrow> error option" where
  "errors_Wrap None msg = None"
| "errors_Wrap (Some e) msg = Some (OtherErr (msg @ '': '' @ err_msg e))"

text \<open>client.IgnoreNotFound: a not-found error becomes nil.\<close>

fun client_IgnoreNotFound :: "error \<Rightarrow> error option" where
  "client_IgnoreNotFound (NotFoundErr m) = None"
| "client_IgnoreNotFound (OtherErr m) = Some (OtherErr m)"

text \<open>strings.Contains s substr.\<close>

definition strings_Contains :: "string \<Rightarrow> string \<Rightarrow> bool" where
  "strings_Contains s substr = sublist substr s"

text \<open>strings.Join elems sep.\<close>

fun strings_Join :: "string list \<Rightarrow> string \<Rightarrow> string" where
  "strings_Join [] sep = []"
| "strings_Join [x] sep = x"
| "strings_Join (x # y # ys) sep = x @ sep @ strings_Join (y # ys) sep"

text \<open>
  A label map (map[string]string) is an association list; indexing a Go map at a key it
  does not hold yields the empty string.
\<close>

type_synonym labels = "(string \<times> string) list"

definition label_of :: "labels \<Rightarrow> string \<Rightarrow> string" where
  "label_of ls k = (case map_of ls k of None \<Rightarrow> [] | Some v \<Rightarrow> v)"

text \<open>
  metav1.Time values are Unix seconds (the precision at which the API server stores them);
  a *metav1.Time is an option. (*Time).Before is false as soon as either side is nil.
\<close>

type_synonym Time = int

fun Time_Before :: "Time option \<Rightarrow> Time option \<Rightarrow> bool" where
  "Time_Before (Some t) (Some u) = (t < u)"
| "Time_Before _ _ = False"

text \<open>
  ResourceType and the keys used by the controllers. The key ValidationSchedule is read by
  isScheduleSpecUpdated; like the table veleroScheduleNames it is declared outside the
  files at hand.
\<close>

datatype ResourceType = ManagedClusters | Credentials | Resources | ValidationSchedule

text \<open>
  The table veleroScheduleNames (a map[ResourceType]string) is declared outside the files
  at hand, so it is a parameter of every function that reads it. Indexing it at an absent
  key yields the empty string.
\<close>

type_synonym scheduleNames = "ResourceType \<Rightarrow> string option"

definition name_of :: "scheduleNames \<Rightarrow> ResourceType \<Rightarrow> string" where
  "name_of names k = (case names k of None \<Rightarrow> [] | Some v \<Rightarrow> v)"

text \<open>The table resourceTypes of the schedule controller, as the list of its entries.\<close>

definition resourceTypes :: "(ResourceType \<times> string) list" where
  "resourceTypes =
     [(ManagedClusters, ''acm-managed-clusters-schedule''),
      (Credentials, ''acm-credentials-schedule''),
      (Resources, ''acm-resources-schedule'')]"

section \<open>Velero backups and sorting\<close>

record Backup =
  bkp_Name :: string
  bkp_Labels :: labels
  bkp_Phase :: string
  bkp_Errors :: int
  bkp_StartTimestamp :: "Time option"

definition BackupPhaseDeleting :: string where
  "BackupPhaseDeleting = ''Deleting''"

definition BackupScheduleClusterLabel :: string where
  "BackupScheduleClusterLabel = ''cluster.open-cluster-management.io/backup-cluster''"

text \<open>
  Modelled from the spec: filterBackups, the generic artifact filter helper whose body is
  not among the files at hand; it keeps, in order, the backups the predicate accepts.
\<close>

definition filterBackups :: "Backup list \<Rightarrow> (Backup \<Rightarrow> bool) \<Rightarrow> Backup list" where
  "filterBackups vs f = filter f vs"

text \<open>
  sort.Sort and sort.Slice belong to the Go library. The functions below take the sorting
  routine as a parameter \<open>srt lt xs\<close>; what the library promises for a consistent
  \<open>lt\<close> is that the result is a rearrangement of the input in which no later element
  is less than an earlier one.
\<close>

definition ordered_by :: "('a \<Rightarrow> 'a \<Rightarrow> bool) \<Rightarrow> 'a list \<Rightarrow> bool" where
  "ordered_by lt ys = sorted_wrt (\<lambda>a b. \<not> lt b a) ys"

text \<open>
  For slices of at most six elements every Go release runs insertionSort right away
  (releases up to 1.18 first make one pass at distance 6 over slices of 7 to 12 elements):
  \<^verbatim>\<open>for i := a + 1; i < b; i++ {
    for j := i; j > a && data.Less(j, j-1); j-- { data.Swap(j, j-1) } }\<close>
  \<open>sink\<close> is the inner loop on the already processed prefix, kept in reverse (its head is
  the element at index \<open>j-1\<close>).
\<close>

primrec sink :: "('a \<Rightarrow> 'a \<Rightarrow> bool) \<Rightarrow> 'a \<Rightarrow> 'a list \<Rightarrow> 'a list" where
  "sink lt x [] = [x]"
| "sink lt x (y # ys) = (if lt x y then y # sink lt x ys else x # y # ys)"

definition insertionSort :: "('a \<Rightarrow> 'a \<Rightarrow> bool) \<Rightarrow> 'a list \<Rightarrow> 'a list" where
  "insertionSort lt xs = rev (foldl (\<lambda>pre x. sink lt x pre) [] xs)"

text \<open>mostRecentWithLessErrors.Less, on the two elements at the indices.\<close>

definition mostRecentWithLessErrors_Less :: "Backup \<Rightarrow> Backup \<Rightarrow> bool" where
  "mostRecentWithLessErrors_Less bi bj =
     (if bkp_Errors bi < bkp_Errors bj then True
      else if bkp_Errors bi > bkp_Errors bj then False
      else Time_Before (bkp_StartTimestamp bj) (bkp_StartTimestamp bi))"

section \<open>Restore resources\<close>

datatype CleanupType = CleanupTypeNone | CleanupTypeAll

datatype RestorePhase =
  RestorePhaseUnset | RestorePhaseStarted | RestorePhaseRunning | RestorePhaseEnabled
  | RestorePhaseFinished | RestorePhaseFailedValidation | RestorePhaseUnknown

record Restore =
  rst_Name :: string
  rst_Namespace :: string
  spec_SyncRestoreWithNewBackups :: bool
  spec_RestoreSyncInterval :: int
  spec_CleanupBeforeRestore :: CleanupType
  spec_VeleroManagedClustersBackupName :: "string option"
  spec_VeleroCredentialsBackupName :: "string option"
  spec_VeleroResourcesBackupName :: "string option"
  rst_Phase :: RestorePhase

text \<open>
  getVeleroBackupName. \<open>get ns name\<close> is the answer of r.Get for the named backup (its
  error, if any) and \<open>list ns\<close> the answer of r.Client.List in the namespace.
\<close>

definition getVeleroBackupName ::
  "((Backup \<Rightarrow> Backup \<Rightarrow> bool) \<Rightarrow> Backup list \<Rightarrow> Backup list) \<Rightarrow> scheduleNames
   \<Rightarrow> (string \<Rightarrow> string \<Rightarrow> error option) \<Rightarrow> (string \<Rightarrow> error + Backup list)
   \<Rightarrow> Restore \<Rightarrow> ResourceType \<Rightarrow> error + string" where
  "getVeleroBackupName srt veleroScheduleNames get list restore resourceType =
     (let veleroBackupName =
            (case resourceType of
               ManagedClusters \<Rightarrow> spec_VeleroManagedClustersBackupName restore
             | Credentials \<Rightarrow> spec_VeleroCredentialsBackupName restore
             | Resources \<Rightarrow> spec_VeleroResourcesBackupName restore
             | ValidationSchedule \<Rightarrow> None)
      in if veleroBackupName \<noteq> None \<and> length (the veleroBackupName) > 0 then
           (case get (rst_Namespace restore) (the veleroBackupName) of
              None \<Rightarrow> Inr (the veleroBackupName)
            | Some err \<Rightarrow>
                Inl (OtherErr (''cannot find '' @ the veleroBackupName
                               @ '' Velero Backup: '' @ err_msg err)))
         else
           (case list (rst_Namespace restore) of
              Inl err \<Rightarrow> Inl (OtherErr (''unable to list velero backups: '' @ err_msg err))
            | Inr items \<Rightarrow>
                if length items = 0 then Inl (OtherErr ''no backups found'')
                else
                  (let relatedBackups =
                         filterBackups items
                           (\<lambda>bkp. strings_Contains (bkp_Name bkp)
                                     (name_of veleroScheduleNames resourceType))
                   in if length relatedBackups = 0 then Inl (OtherErr ''no backups found'')
                      else
                        (case srt mostRecentWithLessErrors_Less relatedBackups of
                           [] \<Rightarrow> Inl (OtherErr ''index out of range'')
                         | b # _ \<Rightarrow> Inr (bkp_Name b)))))"

section \<open>Velero schedules and the BackupSchedule resource\<close>

text \<open>
  A Velero schedule: metadata, Spec.Schedule, Spec.Template (the backup template, whose
  contents other than the TTL are opaque here) and Status.Phase. Durations are
  nanoseconds, as time.Duration.
\<close>

record BackupSpec =
  tpl_Content :: "string list"
  tpl_TTL :: int

record VeleroSchedule =
  sch_Name :: string
  sch_Namespace :: string
  sch_Labels :: labels
  sch_Owner :: "string option"
  sch_Schedule :: string
  sch_Template :: BackupSpec
  sch_Phase :: string

definition velero_SchedulePhaseNew :: string where
  "velero_SchedulePhaseNew = ''New''"

definition velero_SchedulePhaseFailedValidation :: string where
  "velero_SchedulePhaseFailedValidation = ''FailedValidation''"

text \<open>
  scheduleOwnsLatestStorageBackups. \<open>list sel\<close> is the answer of r.List for the label
  selector \<open>sel\<close>. sort.Slice sorts in place, so the length test after it reads the
  sorted slice.
\<close>

definition startTime_less :: "Backup \<Rightarrow> Backup \<Rightarrow> bool" where
  "startTime_less bi bj =
     (let timeA = (case bkp_StartTimestamp bi of None \<Rightarrow> 0 | Some t \<Rightarrow> t);
          timeB = (case bkp_StartTimestamp bj of None \<Rightarrow> 0 | Some t \<Rightarrow> t)
      in timeA < timeB)"

definition scheduleOwnsLatestStorageBackups ::
  "((Backup \<Rightarrow> Backup \<Rightarrow> bool) \<Rightarrow> Backup list \<Rightarrow> Backup list) \<Rightarrow> scheduleNames
   \<Rightarrow> (labels \<Rightarrow> error + Backup list) \<Rightarrow> VeleroSchedule \<Rightarrow> bool \<times> Backup option" where
  "scheduleOwnsLatestStorageBackups srt veleroScheduleNames list backupSchedule =
     (case list [(''velero.io/schedule-name'', name_of veleroScheduleNames Resources)] of
        Inl err \<Rightarrow> (True, None)
      | Inr items \<Rightarrow>
          (let sliceBackups =
                 srt startTime_less
                   (filterBackups items (\<lambda>bkp. bkp_Phase bkp \<noteq> BackupPhaseDeleting))
           in if length sliceBackups = 0 then (True, None)
              else
                (let lastBackup = last sliceBackups
                 in if label_of (bkp_Labels lastBackup) BackupScheduleClusterLabel
                       \<noteq> label_of (sch_Labels backupSchedule) BackupScheduleClusterLabel
                    then (False, Some lastBackup)
                    else (True, None))))"


section \<open>The BackupSchedule resource and its reconciliation\<close>

datatype SchedulePhase =
  SchedulePhaseUnset | SchedulePhaseNew | SchedulePhaseFailedValidation | SchedulePhaseFailed
  | SchedulePhaseUnknown | SchedulePhaseEnabled | SchedulePhaseBackupCollision

record BackupSchedule =
  bs_Name :: string
  bs_Namespace :: string
  spec_VeleroSchedule :: string
  spec_VeleroTTL :: int
  spec_MaxBackups :: int
  status_Phase :: SchedulePhase
  status_LastMessage :: string
  status_VeleroScheduleManagedClusters :: "VeleroSchedule option"
  status_VeleroScheduleCredentials :: "VeleroSchedule option"
  status_VeleroScheduleResources :: "VeleroSchedule option"

definition FailedPhaseMsg :: string where
  "FailedPhaseMsg = ''Velero schedules initialization failed''"

definition NewPhaseMsg :: string where
  "NewPhaseMsg = ''Velero schedules are initialized''"

definition EnabledPhaseMsg :: string where
  "EnabledPhaseMsg = ''Velero schedules are enabled''"

definition UnknownPhaseMsg :: string where
  "UnknownPhaseMsg = ''Some Velero schedules are not enabled. ''
     @ ''If the status doesn't change check the velero pod is running and ''
     @ ''that you have created a Velero resource as documented in the install guide.''"

definition deleteBackupRequeueInterval :: int where
  "deleteBackupRequeueInterval = 60 * (60 * 1000000000)"

fun setVeleroScheduleInStatus ::
  "ResourceType \<Rightarrow> VeleroSchedule \<Rightarrow> BackupSchedule \<Rightarrow> BackupSchedule" where
  "setVeleroScheduleInStatus ManagedClusters veleroSchedule backupSchedule =
     backupSchedule\<lparr>status_VeleroScheduleManagedClusters := Some veleroSchedule\<rparr>"
| "setVeleroScheduleInStatus Credentials veleroSchedule backupSchedule =
     backupSchedule\<lparr>status_VeleroScheduleCredentials := Some veleroSchedule\<rparr>"
| "setVeleroScheduleInStatus Resources veleroSchedule backupSchedule =
     backupSchedule\<lparr>status_VeleroScheduleResources := Some veleroSchedule\<rparr>"
| "setVeleroScheduleInStatus ValidationSchedule veleroSchedule backupSchedule = backupSchedule"

text \<open>
  updateScheduleStatus ranges over the entries of veleroScheduleNames. Each key writes a
  status field of its own, so the order of the visit does not matter; the keys are taken
  in the order of their declaration.
\<close>

definition updateScheduleStatus ::
  "scheduleNames \<Rightarrow> VeleroSchedule \<Rightarrow> BackupSchedule \<Rightarrow> BackupSchedule" where
  "updateScheduleStatus veleroScheduleNames veleroSchedule backupSchedule =
     foldl (\<lambda>bs key.
              (case veleroScheduleNames key of
                 None \<Rightarrow> bs
               | Some value \<Rightarrow>
                   if sch_Name veleroSchedule = value
                   then setVeleroScheduleInStatus key veleroSchedule bs else bs))
       backupSchedule [ManagedClusters, Credentials, Resources, ValidationSchedule]"

text \<open>setSchedulePhase: the loop over schedules.Items, then the function.\<close>

fun setSchedulePhase_items :: "VeleroSchedule list \<Rightarrow> BackupSchedule \<Rightarrow> BackupSchedule" where
  "setSchedulePhase_items [] backupSchedule =
     backupSchedule\<lparr>status_Phase := SchedulePhaseEnabled, status_LastMessage := EnabledPhaseMsg\<rparr>"
| "setSchedulePhase_items (veleroSchedule # rest) backupSchedule =
     (if sch_Phase veleroSchedule = [] then
        backupSchedule\<lparr>status_Phase := SchedulePhaseUnknown,
                         status_LastMessage := UnknownPhaseMsg\<rparr>
      else if sch_Phase veleroSchedule = velero_SchedulePhaseNew then
        backupSchedule\<lparr>status_Phase := SchedulePhaseNew, status_LastMessage := NewPhaseMsg\<rparr>
      else if sch_Phase veleroSchedule = velero_SchedulePhaseFailedValidation then
        backupSchedule\<lparr>status_Phase := SchedulePhaseFailedValidation,
                         status_LastMessage := FailedPhaseMsg\<rparr>
      else setSchedulePhase_items rest backupSchedule)"

definition setSchedulePhase ::
  "VeleroSchedule list option \<Rightarrow> BackupSchedule \<Rightarrow> BackupSchedule" where
  "setSchedulePhase schedules backupSchedule =
     (if status_Phase backupSchedule = SchedulePhaseBackupCollision then backupSchedule
      else
        (case schedules of
           None \<Rightarrow>
             backupSchedule\<lparr>status_Phase := SchedulePhaseNew, status_LastMessage := NewPhaseMsg\<rparr>
         | Some items \<Rightarrow>
             if length items \<le> 0 then
               backupSchedule\<lparr>status_Phase := SchedulePhaseNew,
                                status_LastMessage := NewPhaseMsg\<rparr>
             else setSchedulePhase_items items backupSchedule))"

text \<open>isScheduleSpecUpdated: the loop, then the function.\<close>

fun isScheduleSpecUpdated_items ::
  "scheduleNames \<Rightarrow> VeleroSchedule list \<Rightarrow> BackupSchedule \<Rightarrow> bool" where
  "isScheduleSpecUpdated_items veleroScheduleNames [] backupSchedule = False"
| "isScheduleSpecUpdated_items veleroScheduleNames (veleroSchedule # rest) backupSchedule =
     (if sch_Name veleroSchedule \<noteq> name_of veleroScheduleNames ValidationSchedule
         \<and> tpl_TTL (sch_Template veleroSchedule) \<noteq> spec_VeleroTTL backupSchedule
      then True
      else if sch_Schedule veleroSchedule \<noteq> spec_VeleroSchedule backupSchedule then True
      else isScheduleSpecUpdated_items veleroScheduleNames rest backupSchedule)"

definition isScheduleSpecUpdated ::
  "scheduleNames \<Rightarrow> VeleroSchedule list option \<Rightarrow> BackupSchedule \<Rightarrow> bool" where
  "isScheduleSpecUpdated veleroScheduleNames schedules backupSchedule =
     (case schedules of
        None \<Rightarrow> False
      | Some items \<Rightarrow>
          if length items \<le> 0 then False
          else isScheduleSpecUpdated_items veleroScheduleNames items backupSchedule)"

text \<open>
  parseCronSchedule. cron.ParseStandard belongs to a library: it is a parameter that
  returns normally, returns an error, or panics with a value; the deferred recover turns
  the panic into a validation message.
\<close>

datatype ParseOutcome = Parsed | ParseError string | ParsePanic string

definition parseCronSchedule :: "(string \<Rightarrow> ParseOutcome) \<Rightarrow> BackupSchedule \<Rightarrow> string list" where
  "parseCronSchedule cron_ParseStandard backupSchedule =
     (if length (spec_VeleroSchedule backupSchedule) = 0 then
        [''Schedule must be a non-empty valid Cron expression'']
      else
        (let validationErrors =
               (case cron_ParseStandard (spec_VeleroSchedule backupSchedule) of
                  Parsed \<Rightarrow> []
                | ParseError err \<Rightarrow> [''invalid schedule: '' @ err]
                | ParsePanic r \<Rightarrow> [''invalid schedule: '' @ r])
         in if length validationErrors > 0 then validationErrors else []))"

text \<open>
  The API server and the other collaborators of the reconciler. Every call the reconciler
  makes is appended to a log; an answer may depend on the calls made so far.
\<close>

datatype ApiCall =
  GetBackupSchedule
  | ListSchedules
  | CreateSchedule VeleroSchedule
  | DeleteSchedule VeleroSchedule
  | StatusUpdate BackupSchedule
  | CleanupBackups int

record Env =
  env_ParseStandard :: "string \<Rightarrow> ParseOutcome"
  env_ScheduleNames :: scheduleNames
  env_RangeResourceTypes :: "(ResourceType \<times> string) list"
  env_BackupInfo :: "ResourceType \<Rightarrow> BackupSpec"
  env_SetControllerReference :: "BackupSchedule \<Rightarrow> VeleroSchedule \<Rightarrow> error + VeleroSchedule"
  env_Get :: "error + BackupSchedule"
  env_List :: "ApiCall list \<Rightarrow> error + VeleroSchedule list"
  env_Create :: "ApiCall list \<Rightarrow> VeleroSchedule \<Rightarrow> error + VeleroSchedule"
  env_Delete :: "ApiCall list \<Rightarrow> VeleroSchedule \<Rightarrow> error option"
  env_StatusUpdate :: "ApiCall list \<Rightarrow> BackupSchedule \<Rightarrow> error option"

text \<open>time.Duration.Truncate: round toward zero to a multiple of m; unchanged if m <= 0.\<close>

definition Duration_Truncate :: "int \<Rightarrow> int \<Rightarrow> int" where
  "Duration_Truncate d m = (if m \<le> 0 then d else sgn d * ((\<bar>d\<bar> div m) * m))"

definition time_Second :: int where
  "time_Second = 1000000000"

text \<open>
  initVeleroSchedules, over the entries of resourceTypes in the order in which this run's
  range statement visits them. It returns the error, the BackupSchedule as mutated so far
  and the log.
\<close>

fun initVeleroSchedules ::
  "Env \<Rightarrow> (ResourceType \<times> string) list \<Rightarrow> BackupSchedule \<Rightarrow> ApiCall list
   \<Rightarrow> error option \<times> BackupSchedule \<times> ApiCall list" where
  "initVeleroSchedules env [] backupSchedule calls = (None, backupSchedule, calls)"
| "initVeleroSchedules env ((key, value) # rest) backupSchedule calls =
     (let veleroBackupTemplate = env_BackupInfo env key;
          veleroSchedule =
            \<lparr>sch_Name = value, sch_Namespace = bs_Namespace backupSchedule, sch_Labels = [],
             sch_Owner = None, sch_Schedule = spec_VeleroSchedule backupSchedule,
             sch_Template =
               (if Duration_Truncate (spec_VeleroTTL backupSchedule) time_Second \<noteq> 0
                then veleroBackupTemplate\<lparr>tpl_TTL := spec_VeleroTTL backupSchedule\<rparr>
                else veleroBackupTemplate),
             sch_Phase = []\<rparr>
      in case env_SetControllerReference env backupSchedule veleroSchedule of
           Inl err \<Rightarrow> (Some err, backupSchedule, calls)
         | Inr owned \<Rightarrow>
             (case env_Create env calls owned of
                Inl err \<Rightarrow> (Some err, backupSchedule, calls @ [CreateSchedule owned])
              | Inr created \<Rightarrow>
                  initVeleroSchedules env rest
                    (setVeleroScheduleInStatus key created backupSchedule)
                    (calls @ [CreateSchedule owned])))"

text \<open>deleteVeleroSchedules: the loop of r.Delete calls, then the function.\<close>

fun deleteVeleroSchedules_items ::
  "Env \<Rightarrow> VeleroSchedule list \<Rightarrow> ApiCall list \<Rightarrow> error option \<times> ApiCall list" where
  "deleteVeleroSchedules_items env [] calls = (None, calls)"
| "deleteVeleroSchedules_items env (veleroSchedule # rest) calls =
     (case env_Delete env calls veleroSchedule of
        Some err \<Rightarrow> (Some err, calls @ [DeleteSchedule veleroSchedule])
      | None \<Rightarrow> deleteVeleroSchedules_items env rest (calls @ [DeleteSchedule veleroSchedule]))"

definition deleteVeleroSchedules ::
  "Env \<Rightarrow> BackupSchedule \<Rightarrow> VeleroSchedule list option \<Rightarrow> ApiCall list
   \<Rightarrow> error option \<times> BackupSchedule \<times> ApiCall list" where
  "deleteVeleroSchedules env backupSchedule schedules calls =
     (case schedules of
        None \<Rightarrow> (None, backupSchedule, calls)
      | Some items \<Rightarrow>
          if length items \<le> 0 then (None, backupSchedule, calls)
          else
            (case deleteVeleroSchedules_items env items calls of
               (Some err, calls') \<Rightarrow> (Some err, backupSchedule, calls')
             | (None, calls') \<Rightarrow>
                 (None,
                  backupSchedule\<lparr>status_Phase := SchedulePhaseNew,
                                   status_LastMessage := NewPhaseMsg,
                                   status_VeleroScheduleCredentials := None,
                                   status_VeleroScheduleManagedClusters := None,
                                   status_VeleroScheduleResources := None\<rparr>,
                  calls')))"

text \<open>
  BackupScheduleReconciler.Reconcile. The outcome holds ctrl.Result.RequeueAfter, the
  error returned, the BackupSchedule object as the function leaves it (none if r.Get
  failed) and the log of the calls made.
\<close>

record ReconcileOut =
  out_RequeueAfter :: int
  out_Err :: "error option"
  out_Object :: "BackupSchedule option"
  out_Calls :: "ApiCall list"

definition Reconcile :: "Env \<Rightarrow> ReconcileOut" where
  "Reconcile env =
     (case env_Get env of
        Inl err \<Rightarrow>
          \<lparr>out_RequeueAfter = 0, out_Err = client_IgnoreNotFound err, out_Object = None,
           out_Calls = [GetBackupSchedule]\<rparr>
      | Inr backupSchedule \<Rightarrow>
          (let calls0 = [GetBackupSchedule];
               errs = parseCronSchedule (env_ParseStandard env) backupSchedule
           in if length errs > 0 then
                (let failed = backupSchedule\<lparr>status_Phase := SchedulePhaseFailedValidation,
                                               status_LastMessage := strings_Join errs '',''\<rparr>
                 in \<lparr>out_RequeueAfter = 0,
                     out_Err = errors_Wrap (env_StatusUpdate env calls0 failed)
                                 ''could not update status'',
                     out_Object = Some failed,
                     out_Calls = calls0 @ [StatusUpdate failed]\<rparr>)
              else
                (case env_List env calls0 of
                   Inl err \<Rightarrow>
                     \<lparr>out_RequeueAfter = 0, out_Err = Some err,
                      out_Object = Some backupSchedule, out_Calls = calls0 @ [ListSchedules]\<rparr>
                 | Inr items \<Rightarrow>
                     (let calls1 = calls0 @ [ListSchedules]
                      in if length items = 0 then
                           (case initVeleroSchedules env (env_RangeResourceTypes env)
                                   backupSchedule calls1 of
                              (ierr, inited, calls2) \<Rightarrow>
                                (let reported =
                                       (case ierr of
                                          Some err \<Rightarrow>
                                            inited\<lparr>status_LastMessage :=
                                                      FailedPhaseMsg @ '': '' @ err_msg err,
                                                    status_Phase := SchedulePhaseFailed\<rparr>
                                        | None \<Rightarrow>
                                            inited\<lparr>status_LastMessage := NewPhaseMsg,
                                                    status_Phase := SchedulePhaseNew\<rparr>)
                                 in \<lparr>out_RequeueAfter = deleteBackupRequeueInterval,
                                     out_Err = errors_Wrap (env_StatusUpdate env calls2 reported)
                                                 ''could not update status'',
                                     out_Object = Some reported,
                                     out_Calls = calls2 @ [StatusUpdate reported]\<rparr>))
                         else if isScheduleSpecUpdated (env_ScheduleNames env) (Some items)
                                   backupSchedule then
                           (case deleteVeleroSchedules env backupSchedule (Some items) calls1 of
                              (Some err, kept, calls2) \<Rightarrow>
                                \<lparr>out_RequeueAfter = 0, out_Err = Some err,
                                 out_Object = Some kept, out_Calls = calls2\<rparr>
                            | (None, reset, calls2) \<Rightarrow>
                                \<lparr>out_RequeueAfter = deleteBackupRequeueInterval,
                                 out_Err = errors_Wrap (env_StatusUpdate env calls2 reset)
                                             ''could not update status'',
                                 out_Object = Some reset,
                                 out_Calls = calls2 @ [StatusUpdate reset]\<rparr>)
                         else
                           (let copied = foldl (\<lambda>bs veleroSchedule.
                                                  updateScheduleStatus (env_ScheduleNames env)
                                                    veleroSchedule bs)
                                           backupSchedule items;
                                phased = setSchedulePhase (Some items) copied;
                                calls2 = calls1 @ [CleanupBackups
                                                     (spec_MaxBackups phased
                                                        * int (length resourceTypes))]
                            in \<lparr>out_RequeueAfter = deleteBackupRequeueInterval,
                                out_Err = errors_Wrap (env_StatusUpdate env calls2 phased)
                                            (''could not update status for schedule ''
                                               @ bs_Namespace phased @ ''/'' @ bs_Name phased),
                                out_Object = Some phased,
                                out_Calls = calls2 @ [StatusUpdate phased]\<rparr>)))))"



definition undecided :: "VeleroSchedule \<Rightarrow> bool" where
  "undecided v =
     (sch_Phase v = [] \<or> sch_Phase v = velero_SchedulePhaseNew
      \<or> sch_Phase v = velero_SchedulePhaseFailedValidation)"

definition phase_of_first :: "VeleroSchedule list \<Rightarrow> SchedulePhase" where
  "phase_of_first items =
     (case find undecided items of
        None \<Rightarrow> SchedulePhaseEnabled
      | Some v \<Rightarrow>
          if sch_Phase v = [] then SchedulePhaseUnknown
          else if sch_Phase v = velero_SchedulePhaseNew then SchedulePhaseNew
          else SchedulePhaseFailedValidation)"

definition phase_by_priority :: "VeleroSchedule list \<Rightarrow> SchedulePhase" where
  "phase_by_priority items =
     (if list_ex (\<lambda>v. sch_Phase v = []) items then SchedulePhaseUnknown
      else if list_ex (\<lambda>v. sch_Phase v = velero_SchedulePhaseNew) items then SchedulePhaseNew
      else if list_ex (\<lambda>v. sch_Phase v = velero_SchedulePhaseFailedValidation) items
      then SchedulePhaseFailedValidation
      else SchedulePhaseEnabled)"


text \<open>
  Vocabulary for the statements about scheduleOwnsLatestStorageBackups: the start time as
  the comparison of sort.Slice reads it (a missing timestamp counts as 0), being a latest
  element of a list, carrying a cluster label other than the one of the schedule, and the
  verdict the function draws from the backup it selected.
\<close>

definition startTimeUnix :: "Backup \<Rightarrow> int" where
  "startTimeUnix b = (case bkp_StartTimestamp b of None \<Rightarrow> 0 | Some t \<Rightarrow> t)"

definition is_latest :: "Backup list \<Rightarrow> Backup \<Rightarrow> bool" where
  "is_latest fs b = (b \<in> set fs \<and> list_all (\<lambda>c. startTimeUnix c \<le> startTimeUnix b) fs)"

definition produced_elsewhere :: "VeleroSchedule \<Rightarrow> Backup \<Rightarrow> bool" where
  "produced_elsewhere sched b =
     (label_of (bkp_Labels b) BackupScheduleClusterLabel
        \<noteq> label_of (sch_Labels sched) BackupScheduleClusterLabel)"

definition collision_result :: "VeleroSchedule \<Rightarrow> Backup \<Rightarrow> bool \<times> Backup option" where
  "collision_result sched b =
     (if label_of (bkp_Labels b) BackupScheduleClusterLabel
         \<noteq> label_of (sch_Labels sched) BackupScheduleClusterLabel
      then (False, Some b) else (True, None))"

section \<open>Option checks of a Restore\<close>

text \<open>
  Modelled from the spec: isSkipAllRestores and isValidSyncOptions. The sources hold their
  tests (Test_isSkipAllRestores, Test_isValidSyncOptions) but not their bodies, so both
  follow section 4.3 of the specification: isSkipAllRestores holds iff each of the three
  selections is unset or exactly "skip"; isValidSyncOptions requires sync to be enabled,
  every selection to be set (an unset one is invalid input), the cleanup policy All, the
  resources selection "latest" and the credentials selection "latest" or "skip", and asks
  nothing more of the managed-clusters selection. Only the boolean of isValidSyncOptions
  is modelled; the message it also returns is not described.
\<close>

definition skipRestoreStr :: string where
  "skipRestoreStr = ''skip''"

definition latestBackupStr :: string where
  "latestBackupStr = ''latest''"

definition isSkipAllRestores :: "Restore \<Rightarrow> bool" where
  "isSkipAllRestores restore =
     list_all (\<lambda>selection. selection = None \<or> selection = Some skipRestoreStr)
       [spec_VeleroManagedClustersBackupName restore,
        spec_VeleroCredentialsBackupName restore,
        spec_VeleroResourcesBackupName restore]"

definition isValidSyncOptions :: "Restore \<Rightarrow> bool" where
  "isValidSyncOptions restore =
     (if \<not> spec_SyncRestoreWithNewBackups restore then False
      else if spec_VeleroManagedClustersBackupName restore = None
              \<or> spec_VeleroCredentialsBackupName restore = None
              \<or> spec_VeleroResourcesBackupName restore = None then False
      else if spec_CleanupBeforeRestore restore \<noteq> CleanupTypeAll then False
      else if spec_VeleroResourcesBackupName restore \<noteq> Some latestBackupStr then False
      else (spec_VeleroCredentialsBackupName restore = Some latestBackupStr
              \<or> spec_VeleroCredentialsBackupName restore = Some skipRestoreStr))"


section \<open>Concrete resources used in the evaluations\<close>

definition hubA_backup :: Backup where
  "hubA_backup = \<lparr>bkp_Name = ''acm-resources-schedule-1'',
     bkp_Labels = [(BackupScheduleClusterLabel, ''hub-a'')], bkp_Phase = ''Completed'',
     bkp_Errors = 0, bkp_StartTimestamp = Some 100\<rparr>"

definition hubB_backup :: Backup where
  "hubB_backup = \<lparr>bkp_Name = ''acm-resources-schedule-2'',
     bkp_Labels = [(BackupScheduleClusterLabel, ''hub-b'')], bkp_Phase = ''Completed'',
     bkp_Errors = 0, bkp_StartTimestamp = Some 200\<rparr>"

definition deleting_backup :: Backup where
  "deleting_backup = \<lparr>bkp_Name = ''acm-resources-schedule-3'',
     bkp_Labels = [(BackupScheduleClusterLabel, ''hub-a'')], bkp_Phase = ''Deleting'',
     bkp_Errors = 0, bkp_StartTimestamp = Some 300\<rparr>"

definition hubA_schedule :: VeleroSchedule where
  "hubA_schedule = \<lparr>sch_Name = ''acm-resources-schedule'', sch_Namespace = ''ns'',
     sch_Labels = [(BackupScheduleClusterLabel, ''hub-a'')], sch_Owner = None,
     sch_Schedule = ''0 * * * *'', sch_Template = \<lparr>tpl_Content = [], tpl_TTL = 0\<rparr>,
     sch_Phase = ''Enabled''\<rparr>"

definition early_backup :: Backup where
  "early_backup = \<lparr>bkp_Name = ''acm-resources-schedule-1'', bkp_Labels = [],
     bkp_Phase = ''Completed'', bkp_Errors = 0, bkp_StartTimestamp = Some 100\<rparr>"

definition unstarted_backup :: Backup where
  "unstarted_backup = \<lparr>bkp_Name = ''acm-resources-schedule-2'', bkp_Labels = [],
     bkp_Phase = ''New'', bkp_Errors = 0, bkp_StartTimestamp = None\<rparr>"

definition late_backup :: Backup where
  "late_backup = \<lparr>bkp_Name = ''acm-resources-schedule-3'', bkp_Labels = [],
     bkp_Phase = ''Completed'', bkp_Errors = 0, bkp_StartTimestamp = Some 300\<rparr>"

definition latest_restore :: Restore where
  "latest_restore = \<lparr>rst_Name = ''restore-acm'', rst_Namespace = ''velero'',
     spec_SyncRestoreWithNewBackups = False, spec_RestoreSyncInterval = 0,
     spec_CleanupBeforeRestore = CleanupTypeNone,
     spec_VeleroManagedClustersBackupName = None, spec_VeleroCredentialsBackupName = None,
     spec_VeleroResourcesBackupName = None, rst_Phase = RestorePhaseUnset\<rparr>"

definition tieA_backup :: Backup where
  "tieA_backup = \<lparr>bkp_Name = ''acm-resources-schedule-4'',
     bkp_Labels = [(BackupScheduleClusterLabel, ''hub-a'')], bkp_Phase = ''Completed'',
     bkp_Errors = 0, bkp_StartTimestamp = Some 200\<rparr>"

definition tieB_backup :: Backup where
  "tieB_backup = \<lparr>bkp_Name = ''acm-resources-schedule-5'',
     bkp_Labels = [(BackupScheduleClusterLabel, ''hub-b'')], bkp_Phase = ''Completed'',
     bkp_Errors = 0, bkp_StartTimestamp = Some 200\<rparr>"

definition new_child :: VeleroSchedule where
  "new_child = \<lparr>sch_Name = ''acm-credentials-schedule'', sch_Namespace = ''ns'',
     sch_Labels = [], sch_Owner = Some ''schedule-acm'',
     sch_Schedule = ''0 * * * *'', sch_Template = \<lparr>tpl_Content = [], tpl_TTL = 0\<rparr>,
     sch_Phase = ''New''\<rparr>"

definition unreported_child :: VeleroSchedule where
  "unreported_child = \<lparr>sch_Name = ''acm-resources-schedule'', sch_Namespace = ''ns'',
     sch_Labels = [], sch_Owner = Some ''schedule-acm'',
     sch_Schedule = ''0 * * * *'', sch_Template = \<lparr>tpl_Content = [], tpl_TTL = 0\<rparr>,
     sch_Phase = []\<rparr>"



definition hourly_schedule :: BackupSchedule where
  "hourly_schedule = \<lparr>bs_Name = ''schedule-acm'', bs_Namespace = ''ns'',
     spec_VeleroSchedule = ''0 * * * *'', spec_VeleroTTL = 0, spec_MaxBackups = 2,
     status_Phase = SchedulePhaseUnset, status_LastMessage = [],
     status_VeleroScheduleManagedClusters = None, status_VeleroScheduleCredentials = None,
     status_VeleroScheduleResources = None\<rparr>"

text \<open>
  A cluster in which every call succeeds and no Velero schedule exists yet. Its cron
  parser accepts the two expressions used below, panics on one input and rejects the rest.
\<close>

definition cluster_env :: Env where
  "cluster_env =
     \<lparr>env_ParseStandard =
        (\<lambda>s. if s = ''0 * * * *'' \<or> s = ''0 0 * * *'' then Parsed
             else if s = ''@every'' then ParsePanic ''runtime error: index out of range''
             else ParseError ''expected exactly 5 fields''),
      env_ScheduleNames =
        (map_of resourceTypes)(ValidationSchedule \<mapsto> ''acm-validation-policy-schedule''),
      env_RangeResourceTypes = resourceTypes,
      env_BackupInfo = (\<lambda>key. \<lparr>tpl_Content = [], tpl_TTL = 0\<rparr>),
      env_SetControllerReference = (\<lambda>bs v. Inr (v\<lparr>sch_Owner := Some (bs_Name bs)\<rparr>)),
      env_Get = Inr hourly_schedule,
      env_List = (\<lambda>calls. Inr []),
      env_Create = (\<lambda>calls v. Inr v),
      env_Delete = (\<lambda>calls v. None),
      env_StatusUpdate = (\<lambda>calls bs. None)\<rparr>"





text \<open>The Restore of the test tables, by its five options.\<close>

definition test_restore ::
  "bool \<Rightarrow> CleanupType \<Rightarrow> string option \<Rightarrow> string option \<Rightarrow> string option \<Rightarrow> Restore" where
  "test_restore sync cleanup managedClusters credentials resources =
     \<lparr>rst_Name = ''Restore'', rst_Namespace = ''veleroNamespace'',
      spec_SyncRestoreWithNewBackups = sync, spec_RestoreSyncInterval = 0,
      spec_CleanupBeforeRestore = cleanup,
      spec_VeleroManagedClustersBackupName = managedClusters,
      spec_VeleroCredentialsBackupName = credentials,
      spec_VeleroResourcesBackupName = resources, rst_Phase = RestorePhaseRunning\<rparr>"

section \<open>Sorting: what an ordered rearrangement guarantees\<close>

lemma startTime_less_iff: "startTime_less a b \<longleftrightarrow> startTimeUnix a < startTimeUnix b"
  by (simp add: startTime_less_def startTimeUnix_def)

lemma startTime_less_irrefl: "\<not> startTime_less a a"
  by (simp add: startTime_less_iff)

lemma mostRecentWithLessErrors_Less_irrefl: "\<not> mostRecentWithLessErrors_Less a a"
  by (cases "bkp_StartTimestamp a") (simp_all add: mostRecentWithLessErrors_Less_def)

lemma ordered_by_last:
  assumes "ordered_by lt ys" and "y \<in> set ys" and "\<And>a. \<not> lt a a"
  shows "\<not> lt (last ys) y"
  using assms(1,2) unfolding ordered_by_def
proof (induction ys)
  case Nil
  then show ?case by simp
next
  case (Cons x xs)
  show ?case
  proof (cases "xs = []")
    case True
    with Cons.prems assms(3) show ?thesis by simp
  next
    case False
    with Cons show ?thesis by auto
  qed
qed

lemma ordered_by_hd:
  assumes "ordered_by lt ys" and "y \<in> set ys" and "\<And>a. \<not> lt a a"
  shows "\<not> lt y (hd ys)"
  using assms by (cases ys) (auto simp: ordered_by_def)

lemma sorted_last_is_latest:
  assumes "mset ys = mset fs" and "ordered_by startTime_less ys" and "fs \<noteq> []"
  shows "is_latest fs (last ys)"
proof -
  have ne: "ys \<noteq> []" using assms(1,3) by auto
  have s: "set ys = set fs" using assms(1) by (rule mset_eq_setD)
  have "\<not> startTime_less (last ys) c" if "c \<in> set fs" for c
    using ordered_by_last[OF assms(2), of c] that s by (simp add: startTime_less_iff)
  then show ?thesis
    using ne s by (auto simp: is_latest_def list_all_iff startTime_less_iff not_less)
qed

section \<open>Backup selection for a restore\<close>

lemma contains_res:
  "strings_Contains ''acm-resources-schedule-1'' ''acm-resources-schedule''"
  "strings_Contains ''acm-resources-schedule-2'' ''acm-resources-schedule''"
  "strings_Contains ''acm-resources-schedule-3'' ''acm-resources-schedule''"
  by (simp_all add: strings_Contains_def)

lemma three_related:
  "filterBackups [early_backup, unstarted_backup, late_backup]
     (\<lambda>bkp. strings_Contains (bkp_Name bkp) (name_of (map_of resourceTypes) Resources))
   = [early_backup, unstarted_backup, late_backup]"
  by (simp add: filterBackups_def name_of_def resourceTypes_def contains_res
        early_backup_def unstarted_backup_def late_backup_def)

lemma three_sorted:
  "insertionSort mostRecentWithLessErrors_Less [early_backup, unstarted_backup, late_backup]
   = [early_backup, unstarted_backup, late_backup]"
  by (simp add: insertionSort_def mostRecentWithLessErrors_Less_def
        early_backup_def unstarted_backup_def late_backup_def)

text \<open>
  Claim C1. With no explicit name, getVeleroBackupName is meant to return the related
  backup with the fewest errors and, among those, the latest start timestamp. The
  comparison treats a backup without a start timestamp as neither before nor after any
  other, so it is not a consistent order. On the three related backups below (all with 0
  errors; started at 100, not started yet, started at 300, in this order) the insertion
  sort that sort.Sort runs on a short slice moves nothing, and the function returns the
  backup started at 100 although the one started at 300 is related, has the same error
  count and is later.
\<close>

theorem getVeleroBackupName_unstarted_backup_hides_latest:
  "getVeleroBackupName insertionSort (map_of resourceTypes) (\<lambda>ns name. None)
      (\<lambda>ns. Inr [early_backup, unstarted_backup, late_backup]) latest_restore Resources
     = Inr (bkp_Name early_backup)
   \<and> bkp_Errors late_backup = bkp_Errors early_backup
   \<and> Time_Before (bkp_StartTimestamp early_backup) (bkp_StartTimestamp late_backup)
   \<and> strings_Contains (bkp_Name late_backup) (name_of (map_of resourceTypes) Resources)"
proof -
  have "getVeleroBackupName insertionSort (map_of resourceTypes) (\<lambda>ns name. None)
      (\<lambda>ns. Inr [early_backup, unstarted_backup, late_backup]) latest_restore Resources
     = Inr (bkp_Name early_backup)"
    by (simp add: getVeleroBackupName_def Let_def latest_restore_def three_related three_sorted)
  moreover have "bkp_Errors late_backup = bkp_Errors early_backup
     \<and> Time_Before (bkp_StartTimestamp early_backup) (bkp_StartTimestamp late_backup)"
    by (simp add: early_backup_def late_backup_def)
  moreover have "strings_Contains (bkp_Name late_backup) (name_of (map_of resourceTypes) Resources)"
    by (simp add: late_backup_def name_of_def resourceTypes_def contains_res)
  ultimately show ?thesis by simp
qed

text \<open>
  What does hold of getVeleroBackupName: an empty related list gives the error
  "no backups found", and whenever the sorting routine returns an ordered rearrangement
  of the related backups, the name returned is that of a related backup with the fewest
  errors that no related backup with the same error count was started after.
\<close>

lemma getVeleroBackupName_unnamed:
  assumes "(case resourceType of
               ManagedClusters \<Rightarrow> spec_VeleroManagedClustersBackupName restore
             | Credentials \<Rightarrow> spec_VeleroCredentialsBackupName restore
             | Resources \<Rightarrow> spec_VeleroResourcesBackupName restore
             | ValidationSchedule \<Rightarrow> None) \<in> {None, Some []}"
    and "list (rst_Namespace restore) = Inr items"
  shows "getVeleroBackupName srt names get list restore resourceType =
     (let related = filterBackups items
              (\<lambda>bkp. strings_Contains (bkp_Name bkp) (name_of names resourceType))
      in if related = [] then Inl (OtherErr ''no backups found'')
         else (case srt mostRecentWithLessErrors_Less related of
                 [] \<Rightarrow> Inl (OtherErr ''index out of range'')
               | b # _ \<Rightarrow> Inr (bkp_Name b)))"
  using assms
  by (auto simp: getVeleroBackupName_def Let_def filterBackups_def)

lemma getVeleroBackupName_empty:
  assumes "(case resourceType of
               ManagedClusters \<Rightarrow> spec_VeleroManagedClustersBackupName restore
             | Credentials \<Rightarrow> spec_VeleroCredentialsBackupName restore
             | Resources \<Rightarrow> spec_VeleroResourcesBackupName restore
             | ValidationSchedule \<Rightarrow> None) \<in> {None, Some []}"
    and "list (rst_Namespace restore) = Inr items"
    and "filterBackups items
              (\<lambda>bkp. strings_Contains (bkp_Name bkp) (name_of names resourceType)) = []"
  shows "getVeleroBackupName srt names get list restore resourceType
           = Inl (OtherErr ''no backups found'')"
  using getVeleroBackupName_unnamed[where srt=srt and names=names and get=get and list=list
          and restore=restore and resourceType=resourceType and items=items, OF assms(1,2)]
        assms(3)
  by simp

lemma getVeleroBackupName_best:
  assumes un: "(case resourceType of
               ManagedClusters \<Rightarrow> spec_VeleroManagedClustersBackupName restore
             | Credentials \<Rightarrow> spec_VeleroCredentialsBackupName restore
             | Resources \<Rightarrow> spec_VeleroResourcesBackupName restore
             | ValidationSchedule \<Rightarrow> None) \<in> {None, Some []}"
    and li: "list (rst_Namespace restore) = Inr items"
    and rel: "related = filterBackups items
              (\<lambda>bkp. strings_Contains (bkp_Name bkp) (name_of names resourceType))"
    and ne: "related \<noteq> []"
    and perm: "mset (srt mostRecentWithLessErrors_Less related) = mset related"
    and ord: "ordered_by mostRecentWithLessErrors_Less (srt mostRecentWithLessErrors_Less related)"
  shows "\<exists>b \<in> set related.
           getVeleroBackupName srt names get list restore resourceType = Inr (bkp_Name b)
         \<and> (\<forall>c \<in> set related. bkp_Errors b \<le> bkp_Errors c
               \<and> (bkp_Errors c = bkp_Errors b \<longrightarrow>
                     \<not> Time_Before (bkp_StartTimestamp b) (bkp_StartTimestamp c)))"
proof -
  let ?ys = "srt mostRecentWithLessErrors_Less related"
  have s: "set ?ys = set related" using perm by (rule mset_eq_setD)
  then have yne: "?ys \<noteq> []" using ne by auto
  then obtain b bs where ys: "?ys = b # bs" by (cases ?ys) auto
  have res: "getVeleroBackupName srt names get list restore resourceType = Inr (bkp_Name b)"
    using getVeleroBackupName_unnamed[where srt=srt and names=names and get=get and list=list
            and restore=restore and resourceType=resourceType and items=items, OF un li]
          rel ne ys
    by (simp add: Let_def)
  have b: "b \<in> set related" using s ys by auto
  have "\<not> mostRecentWithLessErrors_Less c b" if "c \<in> set related" for c
  proof -
    have "c \<in> set ?ys" using that s by simp
    from ordered_by_hd[OF ord this mostRecentWithLessErrors_Less_irrefl] show ?thesis
      using ys by simp
  qed
  then have "bkp_Errors b \<le> bkp_Errors c
               \<and> (bkp_Errors c = bkp_Errors b \<longrightarrow>
                     \<not> Time_Before (bkp_StartTimestamp b) (bkp_StartTimestamp c))"
    if "c \<in> set related" for c
    using that by (fastforce simp: mostRecentWithLessErrors_Less_def split: if_splits)
  then show ?thesis using b res by blast
qed

section \<open>Ownership of the latest backups in the storage location\<close>

lemma scheduleOwns_listed:
  assumes "list [(''velero.io/schedule-name'', name_of names Resources)] = Inr items"
  shows "scheduleOwnsLatestStorageBackups srt names list sched =
     (let ys = srt startTime_less
                 (filterBackups items (\<lambda>bkp. bkp_Phase bkp \<noteq> BackupPhaseDeleting))
      in if ys = [] then (True, None) else collision_result sched (last ys))"
  using assms by (simp add: scheduleOwnsLatestStorageBackups_def collision_result_def Let_def)

lemma hub_filter:
  "filterBackups [hubB_backup, deleting_backup, hubA_backup]
      (\<lambda>bkp. bkp_Phase bkp \<noteq> BackupPhaseDeleting)
     = [hubB_backup, hubA_backup]"
  by (simp add: filterBackups_def hubA_backup_def hubB_backup_def deleting_backup_def
        BackupPhaseDeleting_def)

lemma hub_sort:
  "insertionSort startTime_less [hubB_backup, hubA_backup] = [hubA_backup, hubB_backup]"
  by (simp add: insertionSort_def startTime_less_def hubA_backup_def hubB_backup_def)

lemma tie_filter:
  "filterBackups [tieA_backup, tieB_backup] (\<lambda>bkp. bkp_Phase bkp \<noteq> BackupPhaseDeleting)
     = [tieA_backup, tieB_backup]"
  "filterBackups [tieB_backup, tieA_backup] (\<lambda>bkp. bkp_Phase bkp \<noteq> BackupPhaseDeleting)
     = [tieB_backup, tieA_backup]"
  by (simp_all add: filterBackups_def tieA_backup_def tieB_backup_def BackupPhaseDeleting_def)

lemma tie_sort:
  "insertionSort startTime_less [tieA_backup, tieB_backup] = [tieA_backup, tieB_backup]"
  "insertionSort startTime_less [tieB_backup, tieA_backup] = [tieB_backup, tieA_backup]"
  by (simp_all add: insertionSort_def startTime_less_def tieA_backup_def tieB_backup_def)

lemma tie_labels:
  "produced_elsewhere hubA_schedule tieB_backup"
  "\<not> produced_elsewhere hubA_schedule tieA_backup"
  by (simp_all add: produced_elsewhere_def label_of_def tieA_backup_def tieB_backup_def
        hubA_schedule_def)

text \<open>
  Claim C3. Over a successful listing, let \<open>fs\<close> be the listed backups whose phase is not
  Deleting, and let the sorting routine return an ordered rearrangement of \<open>fs\<close>. The
  function returns false, paired with the backup the sort leaves last, exactly when
  \<open>fs\<close> is not empty and the cluster label of that backup differs from the cluster label
  of the schedule; in every other case it returns (true, nil). The backup the sort leaves
  last is one that no backup of \<open>fs\<close> was started after (a missing start timestamp counts
  as 0). Hence the result is false when \<open>fs\<close> is not empty and every backup of \<open>fs\<close>
  with the latest start carries another cluster's label, it is (true, nil) when every such
  backup carries the label of the schedule, and when one backup was started strictly after
  all the others the result is false, paired with that backup, if and only if its label
  differs. The statement cannot be made unconditional in terms of the latest start alone:
  when several backups share the latest start and disagree on the label, the result is
  the verdict on whichever of them the sort leaves last.
\<close>

theorem scheduleOwnsLatestStorageBackups_collision:
  assumes listed: "list [(''velero.io/schedule-name'', name_of names Resources)] = Inr items"
    and fs: "fs = filterBackups items (\<lambda>bkp. bkp_Phase bkp \<noteq> BackupPhaseDeleting)"
    and perm: "mset (srt startTime_less fs) = mset fs"
    and ord: "ordered_by startTime_less (srt startTime_less fs)"
  shows "scheduleOwnsLatestStorageBackups srt names list sched
           = (if fs \<noteq> [] \<and> produced_elsewhere sched (last (srt startTime_less fs))
              then (False, Some (last (srt startTime_less fs))) else (True, None))
       \<and> (fs \<noteq> [] \<longrightarrow> is_latest fs (last (srt startTime_less fs)))
       \<and> (fs \<noteq> [] \<and> (\<forall>b. is_latest fs b \<longrightarrow> produced_elsewhere sched b) \<longrightarrow>
            fst (scheduleOwnsLatestStorageBackups srt names list sched) = False)
       \<and> ((\<forall>b. is_latest fs b \<longrightarrow> \<not> produced_elsewhere sched b) \<longrightarrow>
            scheduleOwnsLatestStorageBackups srt names list sched = (True, None))
       \<and> (\<forall>b. b \<in> set fs
              \<and> list_all (\<lambda>c. c = b \<or> startTimeUnix c < startTimeUnix b) fs \<longrightarrow>
            (scheduleOwnsLatestStorageBackups srt names list sched
               = (if produced_elsewhere sched b then (False, Some b) else (True, None))))"
proof -
  let ?ys = "srt startTime_less fs"
  let ?res = "scheduleOwnsLatestStorageBackups srt names list sched"
  have res0: "?res = (if ?ys = [] then (True, None) else collision_result sched (last ?ys))"
    using scheduleOwns_listed[where list=list and names=names and items=items and srt=srt
            and sched=sched, OF listed] fs
    by (simp add: Let_def)
  have empty_iff: "?ys = [] \<longleftrightarrow> fs = []"
    using perm by (metis mset_zero_iff)
  have res: "?res = (if fs \<noteq> [] \<and> produced_elsewhere sched (last ?ys)
                     then (False, Some (last ?ys)) else (True, None))"
    using res0 empty_iff by (simp add: collision_result_def produced_elsewhere_def)
  have lat: "fs \<noteq> [] \<Longrightarrow> is_latest fs (last ?ys)"
    using sorted_last_is_latest[OF perm ord] by simp
  have c3: "fs \<noteq> [] \<and> (\<forall>b. is_latest fs b \<longrightarrow> produced_elsewhere sched b) \<longrightarrow> fst ?res = False"
    using res lat by simp
  have c4: "(\<forall>b. is_latest fs b \<longrightarrow> \<not> produced_elsewhere sched b) \<longrightarrow> ?res = (True, None)"
    using res lat by auto
  have c5: "?res = (if produced_elsewhere sched b then (False, Some b) else (True, None))"
    if b: "b \<in> set fs"
      and strict: "list_all (\<lambda>c. c = b \<or> startTimeUnix c < startTimeUnix b) fs" for b
  proof -
    have ne: "fs \<noteq> []" using b by auto
    have l: "is_latest fs (last ?ys)" using lat[OF ne] .
    have "last ?ys \<in> set fs" using l by (simp add: is_latest_def)
    then have "last ?ys = b \<or> startTimeUnix (last ?ys) < startTimeUnix b"
      using strict by (simp add: list_all_iff)
    moreover have "startTimeUnix b \<le> startTimeUnix (last ?ys)"
      using l b by (simp add: is_latest_def list_all_iff)
    ultimately have "last ?ys = b" by auto
    then show ?thesis using res ne by simp
  qed
  have c2: "fs \<noteq> [] \<longrightarrow> is_latest fs (last ?ys)" using lat by simp
  show ?thesis using res c2 c3 c4 c5 by blast
qed

theorem scheduleOwnsLatestStorageBackups_collision_witness:
  "scheduleOwnsLatestStorageBackups insertionSort (map_of resourceTypes)
      (\<lambda>sel. Inr [hubB_backup, deleting_backup, hubA_backup]) hubA_schedule
     = (False, Some hubB_backup)"
proof -
  let ?list = "\<lambda>sel :: labels.
                 (Inr [hubB_backup, deleting_backup, hubA_backup] :: error + Backup list)"
  have h1: "?list [(''velero.io/schedule-name'', name_of (map_of resourceTypes) Resources)]
              = Inr [hubB_backup, deleting_backup, hubA_backup]" by simp
  have h2: "[hubB_backup, hubA_backup] =
      filterBackups [hubB_backup, deleting_backup, hubA_backup]
        (\<lambda>bkp. bkp_Phase bkp \<noteq> BackupPhaseDeleting)"
    by (simp add: hub_filter)
  have h3: "mset (insertionSort startTime_less [hubB_backup, hubA_backup])
              = mset [hubB_backup, hubA_backup]"
    by (simp add: hub_sort)
  have h4: "ordered_by startTime_less (insertionSort startTime_less [hubB_backup, hubA_backup])"
    unfolding hub_sort
    by (simp add: ordered_by_def startTime_less_def hubA_backup_def hubB_backup_def)
  have b: "hubB_backup \<in> set [hubB_backup, hubA_backup]
        \<and> list_all (\<lambda>c. c = hubB_backup \<or> startTimeUnix c < startTimeUnix hubB_backup)
            [hubB_backup, hubA_backup]"
    by (simp add: startTimeUnix_def hubA_backup_def hubB_backup_def)
  have d: "produced_elsewhere hubA_schedule hubB_backup"
    by (simp add: produced_elsewhere_def label_of_def hubB_backup_def hubA_schedule_def)
  from scheduleOwnsLatestStorageBackups_collision
         [where list = ?list and srt = insertionSort and sched = hubA_schedule, OF h1 h2 h3 h4]
       b
  have "scheduleOwnsLatestStorageBackups insertionSort (map_of resourceTypes) ?list
                hubA_schedule
          = (if produced_elsewhere hubA_schedule hubB_backup then (False, Some hubB_backup)
             else (True, None))"
    by blast
  then show ?thesis using d by simp
qed

text \<open>
  Two backups started at the same second, one produced by the hub of the schedule and one
  by another hub. Listed in one order the function reports no collision although a backup
  with the latest start carries another cluster's label; listed in the other order it
  reports the collision. sort.Slice on two elements with equal keys swaps nothing, and the
  function reads the last element.
\<close>

theorem scheduleOwnsLatestStorageBackups_tie_counterexample:
  "filterBackups [tieB_backup, tieA_backup] (\<lambda>bkp. bkp_Phase bkp \<noteq> BackupPhaseDeleting)
     = [tieB_backup, tieA_backup]
   \<and> is_latest [tieB_backup, tieA_backup] tieB_backup
   \<and> is_latest [tieB_backup, tieA_backup] tieA_backup
   \<and> produced_elsewhere hubA_schedule tieB_backup
   \<and> scheduleOwnsLatestStorageBackups insertionSort (map_of resourceTypes)
        (\<lambda>sel. Inr [tieB_backup, tieA_backup]) hubA_schedule = (True, None)
   \<and> scheduleOwnsLatestStorageBackups insertionSort (map_of resourceTypes)
        (\<lambda>sel. Inr [tieA_backup, tieB_backup]) hubA_schedule = (False, Some tieB_backup)"
proof -
  have l: "is_latest [tieB_backup, tieA_backup] tieB_backup
         \<and> is_latest [tieB_backup, tieA_backup] tieA_backup"
    by (simp add: is_latest_def startTimeUnix_def tieA_backup_def tieB_backup_def)
  have r1: "scheduleOwnsLatestStorageBackups insertionSort (map_of resourceTypes)
        (\<lambda>sel. Inr [tieB_backup, tieA_backup]) hubA_schedule = (True, None)"
    using tie_labels
    by (simp add: scheduleOwnsLatestStorageBackups_def Let_def tie_filter tie_sort
          produced_elsewhere_def)
  have r2: "scheduleOwnsLatestStorageBackups insertionSort (map_of resourceTypes)
        (\<lambda>sel. Inr [tieA_backup, tieB_backup]) hubA_schedule = (False, Some tieB_backup)"
    using tie_labels
    by (simp add: scheduleOwnsLatestStorageBackups_def Let_def tie_filter tie_sort
          produced_elsewhere_def)
  show ?thesis using l r1 r2 tie_labels(1) tie_filter(2) by simp
qed

text \<open>
  Claim C10. When the listing of backups fails, and when no listed backup is left after
  the ones in phase Deleting are dropped, scheduleOwnsLatestStorageBackups returns
  (true, nil): no collision is reported. (Sorting in place keeps the length, which is all
  the second case needs of the sorting routine.)
\<close>

theorem scheduleOwnsLatestStorageBackups_no_collision_on_failure:
  "(list [(''velero.io/schedule-name'', name_of names Resources)] = Inl e \<longrightarrow>
            scheduleOwnsLatestStorageBackups srt names list sched = (True, None))
       \<and> (list [(''velero.io/schedule-name'', name_of names Resources)] = Inr items
            \<and> filterBackups items (\<lambda>bkp. bkp_Phase bkp \<noteq> BackupPhaseDeleting) = []
            \<and> length (srt startTime_less []) = length ([] :: Backup list) \<longrightarrow>
            scheduleOwnsLatestStorageBackups srt names list sched = (True, None))"
  by (simp add: scheduleOwnsLatestStorageBackups_def)

theorem scheduleOwnsLatestStorageBackups_no_collision_on_failure_witness:
  "scheduleOwnsLatestStorageBackups insertionSort (map_of resourceTypes)
      (\<lambda>sel. Inl (OtherErr ''connection refused'')) hubA_schedule = (True, None)
   \<and> scheduleOwnsLatestStorageBackups insertionSort (map_of resourceTypes)
      (\<lambda>sel. Inr [deleting_backup]) hubA_schedule = (True, None)"
proof -
  have f: "filterBackups [deleting_backup] (\<lambda>bkp. bkp_Phase bkp \<noteq> BackupPhaseDeleting) = []"
    by (simp add: filterBackups_def deleting_backup_def BackupPhaseDeleting_def)
  have l: "length (insertionSort startTime_less ([] :: Backup list))
             = length ([] :: Backup list)"
    by (simp add: insertionSort_def)
  show ?thesis
    using scheduleOwnsLatestStorageBackups_no_collision_on_failure
            [where list = "\<lambda>sel. Inl (OtherErr ''connection refused'')" and srt = insertionSort
               and names = "map_of resourceTypes" and sched = hubA_schedule
               and e = "OtherErr ''connection refused''"]
          scheduleOwnsLatestStorageBackups_no_collision_on_failure
            [where list = "\<lambda>sel. Inr [deleting_backup]" and srt = insertionSort
               and names = "map_of resourceTypes" and sched = hubA_schedule
               and items = "[deleting_backup]"]
          f l
    by simp
qed

section \<open>Aggregated phase of a BackupSchedule\<close>

lemma setSchedulePhase_items_phase:
  "status_Phase (setSchedulePhase_items items bs) = phase_of_first items"
  by (induction items) (auto simp: phase_of_first_def undecided_def)

text \<open>
  Claim C2. For a BackupSchedule whose phase is not BackupCollision and a non-empty list
  of child schedules, setSchedulePhase sets the phase from the first child, in the order
  of the list, whose phase is empty, New or FailedValidation: Unknown, New or
  FailedValidation respectively; it sets Enabled when no child has such a phase. The
  loop returns at the first such child, so an empty phase further down the list does not
  take precedence over a New or FailedValidation phase met before it. For a
  BackupSchedule whose phase is BackupCollision the function changes nothing, whatever
  the list.
\<close>

theorem setSchedulePhase_first_undecided_child:
  "(status_Phase bs \<noteq> SchedulePhaseBackupCollision \<and> items \<noteq> [] \<longrightarrow>
      status_Phase (setSchedulePhase (Some items) bs) = phase_of_first items)
   \<and> (status_Phase bs = SchedulePhaseBackupCollision \<longrightarrow> setSchedulePhase schedules bs = bs)"
  by (simp add: setSchedulePhase_def setSchedulePhase_items_phase)

theorem setSchedulePhase_first_undecided_child_witness:
  "status_Phase (setSchedulePhase (Some [new_child, unreported_child]) hourly_schedule)
     = SchedulePhaseNew
   \<and> setSchedulePhase (Some [new_child])
        (hourly_schedule\<lparr>status_Phase := SchedulePhaseBackupCollision\<rparr>)
       = hourly_schedule\<lparr>status_Phase := SchedulePhaseBackupCollision\<rparr>"
proof -
  have p: "phase_of_first [new_child, unreported_child] = SchedulePhaseNew"
    by (simp add: phase_of_first_def undecided_def new_child_def velero_SchedulePhaseNew_def)
  have n: "status_Phase hourly_schedule \<noteq> SchedulePhaseBackupCollision"
    by (simp add: hourly_schedule_def)
  show ?thesis
    using setSchedulePhase_first_undecided_child
            [of hourly_schedule "[new_child, unreported_child]" None]
          setSchedulePhase_first_undecided_child
            [of "hourly_schedule\<lparr>status_Phase := SchedulePhaseBackupCollision\<rparr>" "[]"
                "Some [new_child]"]
          p n
    by simp
qed

text \<open>
  A child in phase New listed before a child that has not reported a phase: the function
  sets New, where an aggregation by priority (Unknown before New before FailedValidation)
  gives Unknown.
\<close>

theorem setSchedulePhase_first_child_counterexample:
  "status_Phase hourly_schedule \<noteq> SchedulePhaseBackupCollision
   \<and> list_ex (\<lambda>v. sch_Phase v = []) [new_child, unreported_child]
   \<and> status_Phase (setSchedulePhase (Some [new_child, unreported_child]) hourly_schedule)
       = SchedulePhaseNew
   \<and> phase_by_priority [new_child, unreported_child] = SchedulePhaseUnknown"
  by (simp add: setSchedulePhase_def phase_by_priority_def hourly_schedule_def new_child_def
        unreported_child_def velero_SchedulePhaseNew_def velero_SchedulePhaseFailedValidation_def)

section \<open>Reconciling a BackupSchedule\<close>

lemma parseCronSchedule_cases:
  "parseCronSchedule parse bs =
     (if spec_VeleroSchedule bs = [] then [''Schedule must be a non-empty valid Cron expression'']
      else case parse (spec_VeleroSchedule bs) of
             Parsed \<Rightarrow> []
           | ParseError err \<Rightarrow> [''invalid schedule: '' @ err]
           | ParsePanic r \<Rightarrow> [''invalid schedule: '' @ r])"
  by (simp add: parseCronSchedule_def Let_def split: ParseOutcome.splits)

lemma contains_invalid_schedule:
  "strings_Contains (''invalid schedule: '' @ m) ''invalid schedule''"
proof -
  have "''invalid schedule: '' @ m = ''invalid schedule'' @ ('': '' @ m)" by simp
  then show ?thesis unfolding strings_Contains_def by (metis sublist_append_rightI)
qed

lemma Reconcile_failed_validation:
  assumes "env_Get env = Inr bs" and "parseCronSchedule (env_ParseStandard env) bs \<noteq> []"
  shows "Reconcile env =
     \<lparr>out_RequeueAfter = 0,
      out_Err = errors_Wrap (env_StatusUpdate env [GetBackupSchedule]
                   (bs\<lparr>status_Phase := SchedulePhaseFailedValidation,
                       status_LastMessage :=
                         strings_Join (parseCronSchedule (env_ParseStandard env) bs) '',''\<rparr>))
                  ''could not update status'',
      out_Object = Some (bs\<lparr>status_Phase := SchedulePhaseFailedValidation,
                       status_LastMessage :=
                         strings_Join (parseCronSchedule (env_ParseStandard env) bs) '',''\<rparr>),
      out_Calls = [GetBackupSchedule, StatusUpdate
                   (bs\<lparr>status_Phase := SchedulePhaseFailedValidation,
                       status_LastMessage :=
                         strings_Join (parseCronSchedule (env_ParseStandard env) bs) '',''\<rparr>)]\<rparr>"
  using assms by (simp add: Reconcile_def Let_def)

text \<open>
  Claim C4. When the cron expression of the BackupSchedule is empty, or the parser returns
  an error for it or panics on it, Reconcile sets the phase to FailedValidation and the
  message to the validation messages joined by commas, and the only calls it makes are
  the initial Get and the status update: it lists, creates and deletes no schedule. For
  the empty expression the message is "Schedule must be a non-empty valid Cron
  expression"; otherwise the message contains "invalid schedule".
\<close>

theorem Reconcile_invalid_cron:
  assumes get: "env_Get env = Inr bs"
    and bad: "spec_VeleroSchedule bs = []
              \<or> env_ParseStandard env (spec_VeleroSchedule bs) \<noteq> Parsed"
  shows "\<exists>msg. out_Object (Reconcile env)
                  = Some (bs\<lparr>status_Phase := SchedulePhaseFailedValidation,
                             status_LastMessage := msg\<rparr>)
           \<and> msg = strings_Join (parseCronSchedule (env_ParseStandard env) bs) '',''
           \<and> out_Calls (Reconcile env)
               = [GetBackupSchedule,
                  StatusUpdate (bs\<lparr>status_Phase := SchedulePhaseFailedValidation,
                                    status_LastMessage := msg\<rparr>)]
           \<and> (spec_VeleroSchedule bs = [] \<longrightarrow>
                 msg = ''Schedule must be a non-empty valid Cron expression'')
           \<and> (spec_VeleroSchedule bs \<noteq> [] \<longrightarrow> strings_Contains msg ''invalid schedule'')"
proof -
  let ?errs = "parseCronSchedule (env_ParseStandard env) bs"
  have ne: "?errs \<noteq> []"
    using bad by (auto simp: parseCronSchedule_cases split: ParseOutcome.splits)
  have m1: "spec_VeleroSchedule bs = [] \<Longrightarrow>
              strings_Join ?errs '','' = ''Schedule must be a non-empty valid Cron expression''"
    by (simp add: parseCronSchedule_cases)
  have m2: "strings_Contains (strings_Join ?errs '','') ''invalid schedule''"
    if "spec_VeleroSchedule bs \<noteq> []"
  proof -
    from that bad obtain m where "?errs = [''invalid schedule: '' @ m]"
      by (cases "env_ParseStandard env (spec_VeleroSchedule bs)")
         (simp_all add: parseCronSchedule_cases)
    then show ?thesis by (simp only: strings_Join.simps contains_invalid_schedule)
  qed
  show ?thesis
    using Reconcile_failed_validation[OF get ne] m1 m2 by simp
qed

theorem Reconcile_invalid_cron_witness:
  "(\<exists>msg. out_Calls (Reconcile (cluster_env\<lparr>env_Get :=
                Inr (hourly_schedule\<lparr>spec_VeleroSchedule := ''invalid''\<rparr>)\<rparr>))
             = [GetBackupSchedule,
                StatusUpdate (hourly_schedule\<lparr>spec_VeleroSchedule := ''invalid'',
                                     status_Phase := SchedulePhaseFailedValidation,
                                     status_LastMessage := msg\<rparr>)]
          \<and> strings_Contains msg ''invalid schedule'')
   \<and> (\<exists>msg. out_Calls (Reconcile (cluster_env\<lparr>env_Get :=
                Inr (hourly_schedule\<lparr>spec_VeleroSchedule := ''@every''\<rparr>)\<rparr>))
             = [GetBackupSchedule,
                StatusUpdate (hourly_schedule\<lparr>spec_VeleroSchedule := ''@every'',
                                     status_Phase := SchedulePhaseFailedValidation,
                                     status_LastMessage := msg\<rparr>)]
          \<and> strings_Contains msg ''invalid schedule'')
   \<and> (\<exists>msg. out_Calls (Reconcile (cluster_env\<lparr>env_Get :=
                Inr (hourly_schedule\<lparr>spec_VeleroSchedule := []\<rparr>)\<rparr>))
             = [GetBackupSchedule,
                StatusUpdate (hourly_schedule\<lparr>spec_VeleroSchedule := [],
                                     status_Phase := SchedulePhaseFailedValidation,
                                     status_LastMessage := msg\<rparr>)]
          \<and> msg = ''Schedule must be a non-empty valid Cron expression'')"
proof -
  let ?bad = "hourly_schedule\<lparr>spec_VeleroSchedule := ''invalid''\<rparr>"
  let ?panic = "hourly_schedule\<lparr>spec_VeleroSchedule := ''@every''\<rparr>"
  let ?empty = "hourly_schedule\<lparr>spec_VeleroSchedule := []\<rparr>"
  have g1: "env_Get (cluster_env\<lparr>env_Get := Inr ?bad\<rparr>) = Inr ?bad" by simp
  have b1: "spec_VeleroSchedule ?bad = []
              \<or> env_ParseStandard (cluster_env\<lparr>env_Get := Inr ?bad\<rparr>)
                   (spec_VeleroSchedule ?bad) \<noteq> Parsed"
    by (simp add: cluster_env_def)
  have g3: "env_Get (cluster_env\<lparr>env_Get := Inr ?panic\<rparr>) = Inr ?panic" by simp
  have b3: "spec_VeleroSchedule ?panic = []
              \<or> env_ParseStandard (cluster_env\<lparr>env_Get := Inr ?panic\<rparr>)
                   (spec_VeleroSchedule ?panic) \<noteq> Parsed"
    by (simp add: cluster_env_def)
  have g2: "env_Get (cluster_env\<lparr>env_Get := Inr ?empty\<rparr>) = Inr ?empty" by simp
  have b2: "spec_VeleroSchedule ?empty = []
              \<or> env_ParseStandard (cluster_env\<lparr>env_Get := Inr ?empty\<rparr>)
                   (spec_VeleroSchedule ?empty) \<noteq> Parsed"
    by simp
  have n1: "spec_VeleroSchedule ?bad \<noteq> []" by simp
  have n3: "spec_VeleroSchedule ?panic \<noteq> []" by simp
  have n2: "spec_VeleroSchedule ?empty = []" by simp
  from Reconcile_invalid_cron[OF g1 b1] n1 have first: "\<exists>msg.
      out_Calls (Reconcile (cluster_env\<lparr>env_Get := Inr ?bad\<rparr>))
        = [GetBackupSchedule,
           StatusUpdate (?bad\<lparr>status_Phase := SchedulePhaseFailedValidation,
                              status_LastMessage := msg\<rparr>)]
      \<and> strings_Contains msg ''invalid schedule''"
    by blast
  from Reconcile_invalid_cron[OF g3 b3] n3 have third: "\<exists>msg.
      out_Calls (Reconcile (cluster_env\<lparr>env_Get := Inr ?panic\<rparr>))
        = [GetBackupSchedule,
           StatusUpdate (?panic\<lparr>status_Phase := SchedulePhaseFailedValidation,
                              status_LastMessage := msg\<rparr>)]
      \<and> strings_Contains msg ''invalid schedule''"
    by blast
  from Reconcile_invalid_cron[OF g2 b2] n2 have second: "\<exists>msg.
      out_Calls (Reconcile (cluster_env\<lparr>env_Get := Inr ?empty\<rparr>))
        = [GetBackupSchedule,
           StatusUpdate (?empty\<lparr>status_Phase := SchedulePhaseFailedValidation,
                                status_LastMessage := msg\<rparr>)]
      \<and> msg = ''Schedule must be a non-empty valid Cron expression''"
    by blast
  show ?thesis using first second third by simp
qed

















section \<open>Option checks of a Restore\<close>

text \<open>
  The rows of Test_isValidSyncOptions and Test_isSkipAllRestores, with the results the
  tests expect.
\<close>

lemma Test_isValidSyncOptions:
  "\<not> isValidSyncOptions
       (test_restore True CleanupTypeNone (Some ''skip'') (Some ''skip'') (Some ''skip''))"
  "\<not> isValidSyncOptions (test_restore True CleanupTypeNone None None None)"
  "\<not> isValidSyncOptions (test_restore True CleanupTypeAll (Some ''skip'')
        (Some ''acm-managed-clusters-schedule-111'') (Some ''latest''))"
  "\<not> isValidSyncOptions
       (test_restore True CleanupTypeAll (Some ''skip'') (Some ''latest'') (Some ''skip''))"
  "\<not> isValidSyncOptions
       (test_restore False CleanupTypeAll (Some ''skip'') (Some ''latest'') (Some ''latest''))"
  "isValidSyncOptions
       (test_restore True CleanupTypeAll (Some ''skip'') (Some ''latest'') (Some ''latest''))"
  by (simp_all add: isValidSyncOptions_def test_restore_def latestBackupStr_def
        skipRestoreStr_def)

lemma Test_isSkipAllRestores:
  "isSkipAllRestores
     (test_restore False CleanupTypeNone (Some ''skip'') (Some ''skip'') (Some ''skip''))"
  "isSkipAllRestores (test_restore False CleanupTypeNone None None None)"
  "\<not> isSkipAllRestores
       (test_restore False CleanupTypeAll (Some ''skip'') (Some ''latest'') (Some ''latest''))"
  "\<not> isSkipAllRestores
       (test_restore False CleanupTypeAll (Some ''latest'') (Some ''latest'') (Some ''latest''))"
  "\<not> isSkipAllRestores
       (test_restore False CleanupTypeNone (Some ''skip'') (Some ''skip'') (Some ''latest''))"
  by (simp_all add: isSkipAllRestores_def test_restore_def skipRestoreStr_def)






lemma isSkipAllRestores_unfold:
  "isSkipAllRestores restore \<longleftrightarrow>
      (spec_VeleroManagedClustersBackupName restore = None
         \<or> spec_VeleroManagedClustersBackupName restore = Some ''skip'')
      \<and> (spec_VeleroCredentialsBackupName restore = None
         \<or> spec_VeleroCredentialsBackupName restore = Some ''skip'')
      \<and> (spec_VeleroResourcesBackupName restore = None
         \<or> spec_VeleroResourcesBackupName restore = Some ''skip'')"
  by (simp add: isSkipAllRestores_def skipRestoreStr_def)

lemma isSkipAllRestores_named:
  assumes "name \<noteq> ''skip''"
    and "spec_VeleroManagedClustersBackupName restore = Some name
            \<or> spec_VeleroCredentialsBackupName restore = Some name
            \<or> spec_VeleroResourcesBackupName restore = Some name"
  shows "\<not> isSkipAllRestores restore"
  unfolding isSkipAllRestores_unfold using assms by fastforce

text \<open>
  Claim C8. isSkipAllRestores returns true if and only if each of the three selections
  (managed clusters, credentials, resources) is unset or exactly "skip"; it returns false
  as soon as one selection is any other name, "latest" included.
\<close>

theorem isSkipAllRestores_iff:
  "(isSkipAllRestores restore \<longleftrightarrow>
      (spec_VeleroManagedClustersBackupName restore = None
         \<or> spec_VeleroManagedClustersBackupName restore = Some ''skip'')
      \<and> (spec_VeleroCredentialsBackupName restore = None
         \<or> spec_VeleroCredentialsBackupName restore = Some ''skip'')
      \<and> (spec_VeleroResourcesBackupName restore = None
         \<or> spec_VeleroResourcesBackupName restore = Some ''skip''))
   \<and> (\<forall>name. name \<noteq> ''skip''
         \<and> (spec_VeleroManagedClustersBackupName restore = Some name
            \<or> spec_VeleroCredentialsBackupName restore = Some name
            \<or> spec_VeleroResourcesBackupName restore = Some name)
        \<longrightarrow> \<not> isSkipAllRestores restore)"
proof (rule conjI)
  show "isSkipAllRestores restore \<longleftrightarrow>
      (spec_VeleroManagedClustersBackupName restore = None
         \<or> spec_VeleroManagedClustersBackupName restore = Some ''skip'')
      \<and> (spec_VeleroCredentialsBackupName restore = None
         \<or> spec_VeleroCredentialsBackupName restore = Some ''skip'')
      \<and> (spec_VeleroResourcesBackupName restore = None
         \<or> spec_VeleroResourcesBackupName restore = Some ''skip'')"
    by (rule isSkipAllRestores_unfold)
next
  show "\<forall>name. name \<noteq> ''skip''
         \<and> (spec_VeleroManagedClustersBackupName restore = Some name
            \<or> spec_VeleroCredentialsBackupName restore = Some name
            \<or> spec_VeleroResourcesBackupName restore = Some name)
        \<longrightarrow> \<not> isSkipAllRestores restore"
  proof (rule allI, rule impI)
    fix name
    assume h: "name \<noteq> ''skip''
         \<and> (spec_VeleroManagedClustersBackupName restore = Some name
            \<or> spec_VeleroCredentialsBackupName restore = Some name
            \<or> spec_VeleroResourcesBackupName restore = Some name)"
    show "\<not> isSkipAllRestores restore"
      by (rule isSkipAllRestores_named[OF conjunct1[OF h] conjunct2[OF h]])
  qed
qed

theorem isSkipAllRestores_iff_witness:
  "isSkipAllRestores (test_restore False CleanupTypeNone None (Some ''skip'') (Some ''skip''))
   \<and> \<not> isSkipAllRestores
          (test_restore False CleanupTypeNone (Some ''skip'') (Some ''skip'') (Some ''latest''))"
proof (rule conjI)
  let ?a = "test_restore False CleanupTypeNone None (Some ''skip'') (Some ''skip'')"
  have a: "(spec_VeleroManagedClustersBackupName ?a = None
         \<or> spec_VeleroManagedClustersBackupName ?a = Some ''skip'')
      \<and> (spec_VeleroCredentialsBackupName ?a = None
         \<or> spec_VeleroCredentialsBackupName ?a = Some ''skip'')
      \<and> (spec_VeleroResourcesBackupName ?a = None
         \<or> spec_VeleroResourcesBackupName ?a = Some ''skip'')"
    by (simp add: test_restore_def)
  show "isSkipAllRestores ?a"
    by (rule iffD2[OF conjunct1[OF isSkipAllRestores_iff[of ?a]] a])
next
  let ?b = "test_restore False CleanupTypeNone (Some ''skip'') (Some ''skip'') (Some ''latest'')"
  have b: "''latest'' \<noteq> ''skip''
         \<and> (spec_VeleroManagedClustersBackupName ?b = Some ''latest''
            \<or> spec_VeleroCredentialsBackupName ?b = Some ''latest''
            \<or> spec_VeleroResourcesBackupName ?b = Some ''latest'')"
    by (simp add: test_restore_def)
  show "\<not> isSkipAllRestores ?b"
    by (rule mp[OF spec[OF conjunct2[OF isSkipAllRestores_iff[of ?b]], of "''latest''"] b])
qed

end
